theory Spec2Isabelle
  imports Main "HOL-Library.Word" "HOL-Library.Signed_Division"
begin

unbundle bit_operations_syntax

section \<open>The dht22m driver: data model\<close>

text \<open>
  A shallow embedding of \<^verbatim>\<open>src/dht22m.c\<close>, the kernel driver for several
  DHT22 (AM2302) sensors that share one capture session. The embedding covers the
  interrupt handler \<^verbatim>\<open>s_handle_edge\<close>, the session controller
  \<^verbatim>\<open>sensor_start_read\<close>, the decoder \<^verbatim>\<open>sensor_decode_pulses\<close> with
  \<^verbatim>\<open>sensor_parse_bytes\<close>, and the character-device handler
  \<^verbatim>\<open>chardevice_open\<close> that combines them.

  The C globals \<^verbatim>\<open>sensor_state\<close>, \<^verbatim>\<open>sensor_states\<close> and
  \<^verbatim>\<open>gpio_pins\<close> are passed explicitly, and a function returns the session it
  leaves. What the environment decides (the clock, the results of the GPIO calls, the
  falling edges that interrupt the caller, the result of \<^verbatim>\<open>kmalloc\<close>) is an
  argument of the function that observes it. Every access to \<^verbatim>\<open>sensor_state\<close>
  is made under \<^verbatim>\<open>sensor_lock\<close>, so an interrupt runs between two locked
  regions of the caller, never inside one; the model runs the handler at those places.
\<close>

type_synonym ktime_t = "64 word"  \<comment> \<open>\<^verbatim>\<open>typedef s64 ktime_t\<close>, nanoseconds\<close>
type_synonym u8 = "8 word"

text \<open>The values of \<^verbatim>\<open>sensor_state.readstate\<close> (lines 65-70).\<close>

datatype readstate =
    DTH22M_READSTATE_COLLECT
  | DTH22M_READSTATE_OK
  | DTH22M_READSTATE_CHKSUMERR
  | DTH22M_READSTATE_OTHERR
  | DTH22M_READSTATE_TOOSOON
  | DTH22M_READSTATE_NEXT

text \<open>The values of an entry of \<^verbatim>\<open>sensor_states\<close> (lines 40-43).\<close>

datatype chan_state =
    DHT22M_STATES_ZEROCONF
  | DHT22M_STATES_CONFIGURED
  | DHT22M_STATES_GPIOERROR
  | DHT22M_STATES_IRQERROR

text \<open>
  \<^verbatim>\<open>struct dht22_state\<close> (lines 84-100). The arrays are lists:
  \<^verbatim>\<open>timestamps\<close> has 43 elements and \<^verbatim>\<open>bytes\<close> has 5 in every
  session of the driver, and the theorems about a session say so where they need it.
  \<^verbatim>\<open>num_edges\<close>, \<^verbatim>\<open>temperature\<close> and \<^verbatim>\<open>humidity\<close> are C
  \<^verbatim>\<open>int\<close>s that the code keeps far from the limits of 32 bits (the only
  increment is guarded, the measurements are built from two bytes), so they are
  modelled as \<open>int\<close>.
\<close>

record dht22_state =
  gpio :: int
  readstate :: readstate
  num_edges :: int
  timestamps :: "ktime_t list"
  bytes :: "u8 list"
  read_timestamp :: ktime_t
  negative :: bool
  temperature :: int
  humidity :: int

text \<open>The channel tables \<^verbatim>\<open>sensor_states\<close> and \<^verbatim>\<open>gpio_pins\<close> (lines 47-49).\<close>

record channel_tables =
  sensor_states :: "chan_state list"
  gpio_pins :: "int list"

definition DHT22M_MAX_DEVICES :: nat where
  "DHT22M_MAX_DEVICES = 8"

definition DHT22M_WAIT_MILLISECOND_AFTER_READ :: int where
  "DHT22M_WAIT_MILLISECOND_AFTER_READ = 2100"

definition DHT22M_CHARDEV_BUFFSIZE :: nat where
  "DHT22M_CHARDEV_BUFFSIZE = 32"

text \<open>The number of elements of \<^verbatim>\<open>timestamps\<close>: \<^verbatim>\<open>1 + 2 + 5*8\<close>.\<close>

definition timestamps_len :: nat where
  "timestamps_len = 1 + 2 + 5 * 8"

text \<open>
  \<^verbatim>\<open>sizeof sensor_state.timestamps\<close>: the size of the array in bytes, eight for
  each \<^verbatim>\<open>ktime_t\<close>.
\<close>

definition sizeof_timestamps :: int where
  "sizeof_timestamps = int timestamps_len * 8"

definition EIO :: int where "EIO = 5"
definition ENOMEM :: int where "ENOMEM = 12"
definition EBUSY :: int where "EBUSY = 16"

section \<open>Array accesses\<close>

text \<open>
  C does not check an index. An access outside the array is undefined behaviour; the
  model stops there with a fault that names the index, so that no theorem can rely on
  what such an access yields.
\<close>

datatype fault = OutOfBounds int

definition arr_read :: "'a list \<Rightarrow> int \<Rightarrow> fault + 'a" where
  "arr_read xs i =
     (if 0 \<le> i \<and> i < int (length xs) then Inr (xs ! nat i) else Inl (OutOfBounds i))"

definition arr_write :: "'a list \<Rightarrow> int \<Rightarrow> 'a \<Rightarrow> fault + 'a list" where
  "arr_write xs i v =
     (if 0 \<le> i \<and> i < int (length xs) then Inr (xs[nat i := v]) else Inl (OutOfBounds i))"

section \<open>Time\<close>

text \<open>
  \<^verbatim>\<open>ktime_to_us\<close> and \<^verbatim>\<open>ktime_to_ms\<close> of the kernel divide the signed
  nanosecond count by 1000 and by 1000000, truncating towards zero as C division does.
  The quotient fits the \<^verbatim>\<open>s64\<close> result, so it is given as an \<open>int\<close>.
  A difference of two timestamps is the wrapping subtraction of \<open>64 word\<close>.
\<close>

definition ktime_to_us :: "ktime_t \<Rightarrow> int" where
  "ktime_to_us kt = sint kt sdiv 1000"

definition ktime_to_ms :: "ktime_t \<Rightarrow> int" where
  "ktime_to_ms kt = sint kt sdiv 1000000"

section \<open>The interrupt handler\<close>

text \<open>
  \<^verbatim>\<open>s_handle_edge\<close> (lines 126-151). \<open>gpio_num\<close> is \<^verbatim>\<open>*dev_id\<close>, the pin
  whose interrupt fired; \<open>now\<close> is \<^verbatim>\<open>ktime_get()\<close>. The handler always
  returns \<^verbatim>\<open>IRQ_HANDLED\<close>, which is left out.

  \<open>store_edge\<close> is the last statement of the handler (lines 145-147). Its guard
  compares \<^verbatim>\<open>num_edges\<close> with \<^verbatim>\<open>sizeof\<close> of the array, as the source
  does. At that point \<^verbatim>\<open>num_edges\<close> is positive, so the conversion to
  \<^verbatim>\<open>size_t\<close> of the comparison keeps its value.
\<close>

definition store_edge :: "ktime_t \<Rightarrow> dht22_state \<Rightarrow> fault + dht22_state" where
  "store_edge now s =
     (if num_edges s < sizeof_timestamps
      then (case arr_write (timestamps s) (num_edges s) now of
              Inl f \<Rightarrow> Inl f
            | Inr ts \<Rightarrow> Inr (s\<lparr>timestamps := ts, num_edges := num_edges s + 1\<rparr>))
      else Inr s)"

definition s_handle_edge :: "int \<Rightarrow> ktime_t \<Rightarrow> dht22_state \<Rightarrow> fault + dht22_state" where
  "s_handle_edge gpio_num now s =
     (if readstate s \<noteq> DTH22M_READSTATE_COLLECT then Inr s
      else if gpio s \<noteq> gpio_num then Inr s
      else if num_edges s \<le> 0 then Inr s
      else if num_edges s = 1
      then (case arr_read (timestamps s) 0 of
              Inl f \<Rightarrow> Inl f
            | Inr t0 \<Rightarrow>
               (let width = ktime_to_us (now - t0) in
                if width < 500 then Inr s else store_edge now s))
      else store_edge now s)"

text \<open>
  The interrupts that arrive while the caller is outside the spin lock: each is a pin
  and a timestamp, handled in order.
\<close>

fun handle_edges :: "(int \<times> ktime_t) list \<Rightarrow> dht22_state \<Rightarrow> fault + dht22_state" where
  "handle_edges [] s = Inr s"
| "handle_edges ((gpio_num, now) # es) s =
     (case s_handle_edge gpio_num now s of
        Inl f \<Rightarrow> Inl f
      | Inr s' \<Rightarrow> handle_edges es s')"

section \<open>Starting a read\<close>

text \<open>
  What \<^verbatim>\<open>sensor_start_read\<close> observes: the clock at entry, whether
  \<^verbatim>\<open>gpio_direction_output\<close> and \<^verbatim>\<open>gpio_direction_input\<close> return non-zero,
  and the edges that interrupt it between arming the session (line 206) and its return.
\<close>

record start_env =
  start_now :: ktime_t
  output_fails :: bool
  input_fails :: bool
  drive_edges :: "(int \<times> ktime_t) list"

text \<open>\<^verbatim>\<open>sensor_start_read\<close> (lines 168-232). The result is the return value and the session.\<close>

definition sensor_start_read ::
  "channel_tables \<Rightarrow> start_env \<Rightarrow> int \<Rightarrow> dht22_state \<Rightarrow> fault + (int \<times> dht22_state)" where
  "sensor_start_read tabs env sensor_index s =
     (if readstate s \<noteq> DTH22M_READSTATE_NEXT then Inr (- EBUSY, s)
      else
        (case arr_read (sensor_states tabs) sensor_index of
           Inl f \<Rightarrow> Inl f
         | Inr cs \<Rightarrow>
            (if cs \<noteq> DHT22M_STATES_CONFIGURED
             then Inr (- EIO, s\<lparr>readstate := DTH22M_READSTATE_OTHERR\<rparr>)
             else
               (case arr_read (gpio_pins tabs) sensor_index of
                  Inl f \<Rightarrow> Inl f
                | Inr pin \<Rightarrow>
                   (let timestamp_diff = ktime_to_ms (start_now env - read_timestamp s) in
                    if gpio s = pin \<and> timestamp_diff < DHT22M_WAIT_MILLISECOND_AFTER_READ
                    then Inr (- EBUSY, s\<lparr>readstate := DTH22M_READSTATE_TOOSOON\<rparr>)
                    else
                      (case arr_write (timestamps s) 0 (start_now env) of
                         Inl f \<Rightarrow> Inl f
                       | Inr ts \<Rightarrow>
                          (case handle_edges (drive_edges env)
                                  (s\<lparr>gpio := pin,
                                     readstate := DTH22M_READSTATE_COLLECT,
                                     negative := False,
                                     temperature := 0,
                                     humidity := 0,
                                     timestamps := ts,
                                     num_edges := 1\<rparr>) of
                             Inl f \<Rightarrow> Inl f
                           | Inr s' \<Rightarrow>
                              (if output_fails env \<or> input_fails env
                               then Inr (- EIO, s'\<lparr>readstate := DTH22M_READSTATE_OTHERR\<rparr>)
                               else Inr (0, s')))))))))"

section \<open>Decoding\<close>

text \<open>
  The loop of \<^verbatim>\<open>sensor_decode_pulses\<close> (lines 260-280), from bit \<open>i\<close> on.
  \<open>bs\<close> is \<^verbatim>\<open>sensor_state.bytes\<close>, five bytes long after the
  \<^verbatim>\<open>memset\<close>, so \<^verbatim>\<open>bytes[i / 8]\<close> with \<open>i < 40\<close> is inside it.
\<close>

function decode_loop :: "nat \<Rightarrow> ktime_t list \<Rightarrow> u8 list \<Rightarrow> fault + u8 list" where
  "decode_loop i ts bs =
     (if i < 5 * 8
      then (case arr_read ts (int i + 3) of
              Inl f \<Rightarrow> Inl f
            | Inr this_ts \<Rightarrow>
               (case arr_read ts (int i + 2) of
                  Inl f \<Rightarrow> Inl f
                | Inr last_ts \<Rightarrow>
                   (let width = ktime_to_us (this_ts - last_ts) in
                    decode_loop (i + 1) ts
                      (if width > 101
                       then bs[i div 8 := bs ! (i div 8) OR push_bit (7 - (i AND 7)) 1]
                       else bs))))
      else Inr bs)"
  by pat_completeness auto
termination
  by (relation "measure (\<lambda>(i, ts, bs). 5 * 8 - i)") auto

text \<open>
  The checksum of line 281: the four bytes are added as \<^verbatim>\<open>int\<close>s and the
  sum is cut to a \<^verbatim>\<open>u8\<close>.
\<close>

definition checksum :: "u8 list \<Rightarrow> u8" where
  "checksum bs = word_of_int (uint (bs ! 0) + uint (bs ! 1) + uint (bs ! 2) + uint (bs ! 3))"

text \<open>\<^verbatim>\<open>sensor_decode_pulses\<close> (lines 244-289).\<close>

definition sensor_decode_pulses :: "dht22_state \<Rightarrow> fault + (int \<times> dht22_state)" where
  "sensor_decode_pulses s =
     (if num_edges s < 5 * 8 + 3
      then Inr (- EIO, s\<lparr>readstate := DTH22M_READSTATE_OTHERR\<rparr>)
      else
        (case decode_loop 0 (timestamps s) (replicate 5 0) of
           Inl f \<Rightarrow> Inl f
         | Inr bs \<Rightarrow>
            (if checksum bs \<noteq> bs ! 4
             then Inr (0, s\<lparr>bytes := bs, readstate := DTH22M_READSTATE_CHKSUMERR\<rparr>)
             else Inr (0, s\<lparr>bytes := bs, readstate := DTH22M_READSTATE_OK\<rparr>))))"

text \<open>
  \<^verbatim>\<open>sensor_parse_bytes\<close> (lines 300-318); it always returns 0. The bytes are
  promoted to \<^verbatim>\<open>int\<close> before the arithmetic.
\<close>

definition sensor_parse_bytes :: "dht22_state \<Rightarrow> fault + dht22_state" where
  "sensor_parse_bytes s =
     (case sensor_decode_pulses s of
        Inl f \<Rightarrow> Inl f
      | Inr (r, s1) \<Rightarrow>
         (if readstate s1 \<noteq> DTH22M_READSTATE_OK then Inr s1
          else
            (case arr_read (timestamps s1) (num_edges s1 - 1) of
               Inl f \<Rightarrow> Inl f
             | Inr t \<Rightarrow>
                Inr (s1\<lparr>read_timestamp := t,
                        negative := (bytes s1 ! 2 AND 0x80 \<noteq> 0),
                        humidity := uint (bytes s1 ! 0) * 256 + uint (bytes s1 ! 1),
                        temperature :=
                          uint (bytes s1 ! 2 AND 0x7F) * 256 + uint (bytes s1 ! 3)\<rparr>))))"

section \<open>The combined read\<close>

text \<open>Printing an \<^verbatim>\<open>int\<close> with \<^verbatim>\<open>%d\<close>.\<close>

definition digit_char :: "nat \<Rightarrow> char" where
  "digit_char n = ''0123456789'' ! n"

function show_nat :: "nat \<Rightarrow> string" where
  "show_nat n = (if n < 10 then [digit_char n] else show_nat (n div 10) @ [digit_char (n mod 10)])"
  by pat_completeness auto
termination
  by (relation "measure id") auto

definition show_int :: "int \<Rightarrow> string" where
  "show_int k = (if k < 0 then CHR ''-'' # show_nat (nat (- k)) else show_nat (nat k))"

text \<open>
  \<^verbatim>\<open>snprintf(message, DHT22M_CHARDEV_BUFFSIZE, ...)\<close> keeps at most 31
  characters before the terminating zero.
\<close>

definition snprintf_message :: "string \<Rightarrow> string" where
  "snprintf_message text = take (DHT22M_CHARDEV_BUFFSIZE - 1) text"

text \<open>
  What \<^verbatim>\<open>chardevice_open\<close> observes beyond \<^verbatim>\<open>sensor_start_read\<close>: the
  edges that arrive during \<^verbatim>\<open>msleep(20)\<close> and whether \<^verbatim>\<open>kmalloc\<close>
  returns a buffer.
\<close>

record open_env =
  start :: start_env
  sleep_edges :: "(int \<times> ktime_t) list"
  kmalloc_ok :: bool

text \<open>
  \<^verbatim>\<open>chardevice_open\<close> (lines 509-583). \<open>minor\<close> is \<^verbatim>\<open>iminor(inode)\<close>.
  The result is the return value, \<^verbatim>\<open>file->private_data\<close> (\<open>None\<close> when it
  is not assigned) and the session.
\<close>

definition chardevice_open ::
  "channel_tables \<Rightarrow> open_env \<Rightarrow> int \<Rightarrow> dht22_state
     \<Rightarrow> fault + (int \<times> string option \<times> dht22_state)" where
  "chardevice_open tabs env minor s =
     (case sensor_start_read tabs (start env) minor s of
        Inl f \<Rightarrow> Inl f
      | Inr (error, s1) \<Rightarrow>
         (if error \<noteq> 0
          then (let s2 = s1\<lparr>readstate := DTH22M_READSTATE_NEXT\<rparr> in
                if \<not> kmalloc_ok env then Inr (- ENOMEM, None, s2)
                else if error = - EBUSY
                then Inr (0, Some (snprintf_message ''ReaderBusy\<newline>''), s2)
                else Inr (0, Some (snprintf_message ''IOError\<newline>''), s2))
          else
            (case handle_edges (sleep_edges env) s1 of
               Inl f \<Rightarrow> Inl f
             | Inr s2 \<Rightarrow>
                (case sensor_parse_bytes s2 of
                   Inl f \<Rightarrow> Inl f
                 | Inr s3 \<Rightarrow>
                    (let rs = readstate s3;
                         hum_int = humidity s3 sdiv 10;
                         hum_frac = humidity s3 smod 10;
                         temp_int = temperature s3 sdiv 10;
                         temp_frac = temperature s3 smod 10;
                         sign = (if negative s3 then ''-'' else []);
                         s4 = s3\<lparr>readstate := DTH22M_READSTATE_NEXT\<rparr>
                     in
                     if \<not> kmalloc_ok env then Inr (- ENOMEM, None, s4)
                     else if rs = DTH22M_READSTATE_OK
                     then Inr (0, Some (snprintf_message
                                  (''Ok;'' @ sign @ show_int temp_int @ ''.'' @ show_int temp_frac
                                   @ '';'' @ show_int hum_int @ ''.'' @ show_int hum_frac
                                   @ ''\<newline>'')), s4)
                     else if rs = DTH22M_READSTATE_CHKSUMERR
                     then Inr (0, Some (snprintf_message ''ChecksumError\<newline>''), s4)
                     else if rs = DTH22M_READSTATE_TOOSOON
                     then Inr (0, Some (snprintf_message ''ReadTooSoon\<newline>''), s4)
                     else if rs = DTH22M_READSTATE_COLLECT
                     then Inr (0, Some (snprintf_message ''NotRead\<newline>''), s4)
                     else Inr (0, Some (snprintf_message ''IOError\<newline>''), s4))))))"

declare decode_loop.simps [simp del]
declare show_nat.simps [simp del]

section \<open>Example inputs\<close>

text \<open>
  One sensor on pin 4 in channel 0, as after writing \<^verbatim>\<open>4\<close> to
  \<^verbatim>\<open>gpiolist\<close>; the other seven channels are not configured.
\<close>

definition ex_tabs :: channel_tables where
  "ex_tabs =
     \<lparr>sensor_states =
        DHT22M_STATES_CONFIGURED # replicate (DHT22M_MAX_DEVICES - 1) DHT22M_STATES_ZEROCONF,
      gpio_pins = 4 # replicate (DHT22M_MAX_DEVICES - 1) 0\<rparr>"

text \<open>
  The falling edges a sensor produces for five bytes, most significant bit first: the
  start marker at 0, the two edges of the handshake, then one edge for each bit, 80 us
  after the previous edge for a 0 and 120 us for a 1.
\<close>

definition bits_of :: "u8 list \<Rightarrow> bool list" where
  "bits_of bs = concat (map (\<lambda>b. map (bit b) [7, 6, 5, 4, 3, 2, 1, 0]) bs)"

fun pulse_train :: "ktime_t \<Rightarrow> bool list \<Rightarrow> ktime_t list" where
  "pulse_train t [] = []"
| "pulse_train t (b # bs) =
     (t + (if b then 120000 else 80000)) # pulse_train (t + (if b then 120000 else 80000)) bs"

definition ex_capture :: "u8 list \<Rightarrow> ktime_t list" where
  "ex_capture bs = [0, 1600000, 1760000] @ pulse_train 1760000 (bits_of bs)"

text \<open>The session when all 43 timestamps of such a capture are recorded.\<close>

definition ex_collected :: "u8 list \<Rightarrow> dht22_state" where
  "ex_collected bs =
     \<lparr>gpio = 4, readstate = DTH22M_READSTATE_COLLECT, num_edges = 43,
      timestamps = ex_capture bs, bytes = replicate 5 0, read_timestamp = 0,
      negative = False, temperature = 0, humidity = 0\<rparr>"

text \<open>The session right after it is armed at time 0.\<close>

definition ex_armed :: dht22_state where
  "ex_armed =
     \<lparr>gpio = 4, readstate = DTH22M_READSTATE_COLLECT, num_edges = 1,
      timestamps = replicate 43 0, bytes = replicate 5 0, read_timestamp = 0,
      negative = False, temperature = 0, humidity = 0\<rparr>"

text \<open>
  The session after a completed read of 65.2 percent and -10.1 degrees on pin 4, its
  result consumed.
\<close>

definition ex_idle :: dht22_state where
  "ex_idle =
     \<lparr>gpio = 4, readstate = DTH22M_READSTATE_NEXT, num_edges = 43,
      timestamps = ex_capture [0x02, 0x8C, 0x80, 0x65, 0x73],
      bytes = [0x02, 0x8C, 0x80, 0x65, 0x73], read_timestamp = 5520000,
      negative = True, temperature = 101, humidity = 652\<rparr>"

text \<open>An environment in which the GPIO calls and \<^verbatim>\<open>kmalloc\<close> succeed.\<close>

definition ex_start_env :: "ktime_t \<Rightarrow> start_env" where
  "ex_start_env t =
     \<lparr>start_now = t, output_fails = False, input_fails = False, drive_edges = []\<rparr>"

definition ex_open_env :: "ktime_t \<Rightarrow> (int \<times> ktime_t) list \<Rightarrow> open_env" where
  "ex_open_env t es = \<lparr>start = ex_start_env t, sleep_edges = es, kmalloc_ok = True\<rparr>"

text \<open>The 42 edges of the example capture on pin 4, for a read armed at time \<open>t\<close>.\<close>

definition ex_edges :: "ktime_t \<Rightarrow> (int \<times> ktime_t) list" where
  "ex_edges t = map (\<lambda>d. (4, t + d)) (tl (ex_capture [0x02, 0x8C, 0x80, 0x65, 0x73]))"

text \<open>
  A capture whose first data pulse is 101.5 us long and whose other 39 pulses are 80 us
  long, all 43 timestamps recorded.
\<close>

definition ex_band :: dht22_state where
  "ex_band =
     \<lparr>gpio = 4, readstate = DTH22M_READSTATE_COLLECT, num_edges = 43,
      timestamps = [0, 1600000, 1760000, 1861500] @ pulse_train 1861500 (replicate 39 False),
      bytes = replicate 5 0, read_timestamp = 0,
      negative = False, temperature = 0, humidity = 0\<rparr>"

section \<open>Arithmetic of the model\<close>

text \<open>
  Truncating division by a positive constant, read back on the nanosecond count: the
  thresholds of the code in microseconds and milliseconds are thresholds in nanoseconds.
\<close>

lemma sdiv_1000_less_500: "(k :: int) sdiv 1000 < 500 \<longleftrightarrow> k < 500000"
  by (cases "0 \<le> k") (auto simp: signed_divide_int_def sgn_if abs_if)

lemma sdiv_1000_greater_101: "101 < (k :: int) sdiv 1000 \<longleftrightarrow> 102000 \<le> k"
  by (cases "0 \<le> k") (auto simp: signed_divide_int_def sgn_if abs_if)

lemma sdiv_million_less_2100: "(k :: int) sdiv 1000000 < 2100 \<longleftrightarrow> k < 2100000000"
  by (cases "0 \<le> k") (auto simp: signed_divide_int_def sgn_if abs_if)

lemma ktime_to_us_greater_101: "101 < ktime_to_us d \<longleftrightarrow> 102000 \<le> sint d"
  by (simp add: ktime_to_us_def sdiv_1000_greater_101)

lemma ktime_to_ms_less_2100:
  "ktime_to_ms d < DHT22M_WAIT_MILLISECOND_AFTER_READ \<longleftrightarrow> sint d < 2100000000"
  by (simp add: ktime_to_ms_def DHT22M_WAIT_MILLISECOND_AFTER_READ_def sdiv_million_less_2100)

lemma and_7_eq_mod_8: "(i :: nat) AND 7 = i mod 8"
proof -
  have "i AND mask 3 = i mod 2 ^ 3"
    by (simp only: take_bit_eq_mask [symmetric] take_bit_eq_mod)
  then show ?thesis by (simp add: mask_eq_exp_minus_1)
qed

lemma bit_0x80: "(b AND 0x80 \<noteq> 0) = bit (b :: u8) 7"
  using and_exp_eq_0_iff_not_bit [of b 7] by simp

lemma bit_single: "bit (2 ^ n :: u8) m \<longleftrightarrow> m = n \<and> n < 8"
  by (auto simp: bit_exp_iff)

lemma same_byte_same_bit:
  "j div 8 = i div 8 \<Longrightarrow> (7 - j mod 8 = 7 - i mod 8 \<longleftrightarrow> j = i)" for i j :: nat
proof -
  assume d: "j div 8 = i div 8"
  have "j mod 8 < 8" "i mod 8 < 8" by simp_all
  then have "7 - j mod 8 = 7 - i mod 8 \<longleftrightarrow> j mod 8 = i mod 8" by arith
  also have "\<dots> \<longleftrightarrow> j = i"
    using d by (metis div_mult_mod_eq)
  finally show ?thesis .
qed

text \<open>The checksum test of line 283, on the bytes read as numbers.\<close>

lemma checksum_iff:
  "checksum bs = bs ! 4 \<longleftrightarrow>
     uint (bs ! 4) = (uint (bs ! 0) + uint (bs ! 1) + uint (bs ! 2) + uint (bs ! 3)) mod 256"
proof -
  have "uint (checksum bs) = (uint (bs ! 0) + uint (bs ! 1) + uint (bs ! 2) + uint (bs ! 3)) mod 256"
    unfolding checksum_def uint_word_of_int_eq take_bit_eq_mod by simp
  then show ?thesis
    by (auto simp: word_uint_eq_iff)
qed

section \<open>The timestamp buffer\<close>

text \<open>
  As long as the handler does not fault, the buffer keeps its length, the count stays
  within it and the phase is not touched.
\<close>

lemma s_handle_edge_keeps_bound:
  assumes "s_handle_edge gpio_num now s = Inr s'"
  shows "length (timestamps s') = length (timestamps s)"
    and "num_edges s \<le> int (length (timestamps s)) \<Longrightarrow>
         num_edges s' \<le> int (length (timestamps s'))"
    and "readstate s' = readstate s"
  using assms
  by (auto simp: s_handle_edge_def store_edge_def arr_read_def arr_write_def Let_def
      split: if_splits sum.splits)

lemma handle_edges_keeps_bound:
  "handle_edges es s = Inr s' \<Longrightarrow> num_edges s \<le> int (length (timestamps s)) \<Longrightarrow>
   length (timestamps s') = length (timestamps s) \<and>
   num_edges s' \<le> int (length (timestamps s')) \<and> readstate s' = readstate s"
proof (induction es arbitrary: s)
  case Nil
  then show ?case by simp
next
  case (Cons e es)
  obtain gpio_num now where e: "e = (gpio_num, now)" by (cases e)
  from Cons.prems(1) e obtain s1 where
    first: "s_handle_edge gpio_num now s = Inr s1" and rest: "handle_edges es s1 = Inr s'"
    by (auto split: sum.splits)
  from s_handle_edge_keeps_bound [OF first] Cons.prems(2)
  have "length (timestamps s1) = length (timestamps s)"
    and "num_edges s1 \<le> int (length (timestamps s1))"
    and "readstate s1 = readstate s"
    by simp_all
  with Cons.IH [OF rest] show ?case by simp
qed

text \<open>
  Inside the buffer an edge is appended. From 43 recorded timestamps up to the 344
  that \<^verbatim>\<open>sizeof\<close> allows, the guard of line 145 lets the store of line 146
  through, past the end of the array.
\<close>

lemma edge_appended:
  assumes "readstate s = DTH22M_READSTATE_COLLECT" and "gpio s = gpio_num"
    and "length (timestamps s) = 43" and "1 < num_edges s" and "num_edges s < 43"
  shows "s_handle_edge gpio_num now s
           = Inr (s\<lparr>timestamps := (timestamps s)[nat (num_edges s) := now],
                    num_edges := num_edges s + 1\<rparr>)"
  using assms
  by (simp add: s_handle_edge_def store_edge_def arr_write_def sizeof_timestamps_def
      timestamps_len_def)

lemma edge_beyond_capacity:
  assumes "readstate s = DTH22M_READSTATE_COLLECT" and "gpio s = gpio_num"
    and "length (timestamps s) = 43" and "43 \<le> num_edges s" and "num_edges s < 344"
  shows "s_handle_edge gpio_num now s = Inl (OutOfBounds (num_edges s))"
  using assms
  by (simp add: s_handle_edge_def store_edge_def arr_write_def sizeof_timestamps_def
      timestamps_len_def)

text \<open>
  A read that \<^verbatim>\<open>sensor_start_read\<close> starts is armed with one timestamp, and
  the edges that arrive before it returns keep the count within the buffer.
\<close>

lemma start_read_armed_bound:
  assumes "sensor_start_read tabs env sensor_index s = Inr (0, s')"
    and "length (timestamps s) = 43"
  shows "length (timestamps s') = 43 \<and> num_edges s' \<le> 43 \<and>
         readstate s' = DTH22M_READSTATE_COLLECT"
proof -
  from assms(1) obtain pin ts s1 where
    armed: "arr_write (timestamps s) 0 (start_now env) = Inr ts" and
    edges: "handle_edges (drive_edges env)
              (s\<lparr>gpio := pin, readstate := DTH22M_READSTATE_COLLECT, negative := False,
                 temperature := 0, humidity := 0, timestamps := ts, num_edges := 1\<rparr>) = Inr s1" and
    result: "s' = s1"
    by (auto simp: sensor_start_read_def Let_def EBUSY_def EIO_def
        split: if_splits sum.splits)
  from armed assms(2) have "length ts = 43"
    by (auto simp: arr_write_def split: if_splits)
  with handle_edges_keeps_bound [OF edges] result show ?thesis by simp
qed

section \<open>The decoding loop\<close>

text \<open>One round of the loop sets at most the bit of its own index.\<close>

lemma set_bit_step:
  assumes "j < 40" "i < 40" "length bs = 5"
  shows "bit (bs[i div 8 := bs ! (i div 8) OR push_bit (7 - (i AND 7)) (1 :: u8)] ! (j div 8))
           (7 - j mod 8)
         \<longleftrightarrow> bit (bs ! (j div 8)) (7 - j mod 8) \<or> j = i"
proof (cases "j div 8 = i div 8")
  case True
  have "i div 8 < length bs" using assms by simp
  then have "bs[i div 8 := bs ! (i div 8) OR push_bit (7 - (i AND 7)) 1] ! (j div 8)
     = bs ! (i div 8) OR push_bit (7 - i mod 8) 1"
    using True by (simp add: and_7_eq_mod_8)
  moreover have "7 - i mod 8 < 8" by simp
  ultimately show ?thesis
    using True same_byte_same_bit [OF True] by (simp add: bit_or_iff bit_single)
next
  case False
  then have "j \<noteq> i" by auto
  with False show ?thesis by simp
qed

text \<open>
  The loop invariant: started at bit \<open>i\<close> on a buffer of 43 timestamps, the loop
  reads inside the buffer, ends, and adds to the bytes exactly the bits from \<open>i\<close> on
  whose pulse is longer than 101 us.
\<close>

lemma decode_loop_bits:
  "length ts = 43 \<Longrightarrow> length bs = 5 \<Longrightarrow> i \<le> 40 \<Longrightarrow>
   \<exists>bs'. decode_loop i ts bs = Inr bs' \<and> length bs' = 5 \<and>
     (\<forall>j<40. bit (bs' ! (j div 8)) (7 - j mod 8) \<longleftrightarrow>
        bit (bs ! (j div 8)) (7 - j mod 8)
        \<or> (i \<le> j \<and> 101 < ktime_to_us (ts ! (j + 3) - ts ! (j + 2))))"
proof (induction i ts bs rule: decode_loop.induct)
  case (1 i ts bs)
  show ?case
  proof (cases "i < 40")
    case False
    then have "decode_loop i ts bs = Inr bs"
      by (subst decode_loop.simps) simp
    with False "1.prems" show ?thesis by simp
  next
    case True
    let ?w = "ktime_to_us (ts ! (i + 3) - ts ! (i + 2))"
    let ?bs1 = "if 101 < ?w
                then bs[i div 8 := bs ! (i div 8) OR push_bit (7 - (i AND 7)) 1]
                else bs"
    have r3: "arr_read ts (int i + 3) = Inr (ts ! (i + 3))"
      using True "1.prems"(1) by (simp add: arr_read_def nat_add_distrib)
    have r2: "arr_read ts (int i + 2) = Inr (ts ! (i + 2))"
      using True "1.prems"(1) by (simp add: arr_read_def nat_add_distrib)
    have len1: "length ?bs1 = 5"
      using "1.prems"(2) by simp
    have "i < 5 * 8" using True by simp
    from "1.IH" [OF this r3 r2 refl "1.prems"(1) len1]
    obtain bs' where
      run: "decode_loop (i + 1) ts ?bs1 = Inr bs'" and
      len': "length bs' = 5" and
      bits: "\<forall>j<40. bit (bs' ! (j div 8)) (7 - j mod 8) \<longleftrightarrow>
               bit (?bs1 ! (j div 8)) (7 - j mod 8)
               \<or> (i + 1 \<le> j \<and> 101 < ktime_to_us (ts ! (j + 3) - ts ! (j + 2)))"
      using True by auto
    have unfold: "decode_loop i ts bs = decode_loop (i + 1) ts ?bs1"
      using True by (subst decode_loop.simps) (simp add: r3 r2 Let_def)
    have "bit (bs' ! (j div 8)) (7 - j mod 8) \<longleftrightarrow>
            bit (bs ! (j div 8)) (7 - j mod 8)
            \<or> (i \<le> j \<and> 101 < ktime_to_us (ts ! (j + 3) - ts ! (j + 2)))"
      if j: "j < 40" for j
    proof -
      have one: "bit (?bs1 ! (j div 8)) (7 - j mod 8) \<longleftrightarrow>
                   bit (bs ! (j div 8)) (7 - j mod 8) \<or> (j = i \<and> 101 < ?w)"
        using set_bit_step [OF j True "1.prems"(2)] by simp
      have "i \<le> j \<longleftrightarrow> j = i \<or> i + 1 \<le> j" by arith
      with bits j one show ?thesis by auto
    qed
    with run len' unfold show ?thesis by simp
  qed
qed

text \<open>
  The rate limit of lines 190-197, for any session: the read is refused with
  \<^verbatim>\<open>-EBUSY\<close>, the code of a busy reader, so \<^verbatim>\<open>chardevice_open\<close> takes
  its error path.
\<close>

lemma too_soon_path:
  assumes "readstate s = DTH22M_READSTATE_NEXT"
    and "0 \<le> sensor_index" and "sensor_index < int (length (sensor_states tabs))"
    and "sensor_index < int (length (gpio_pins tabs))"
    and "sensor_states tabs ! nat sensor_index = DHT22M_STATES_CONFIGURED"
    and "gpio s = gpio_pins tabs ! nat sensor_index"
    and "sint (start_now (start env) - read_timestamp s) < 2100000000"
  shows "sensor_start_read tabs (start env) sensor_index s
           = Inr (- EBUSY, s\<lparr>readstate := DTH22M_READSTATE_TOOSOON\<rparr>)"
    and "kmalloc_ok env \<Longrightarrow>
         chardevice_open tabs env sensor_index s = Inr (0, Some ''ReaderBusy\<newline>'', s)"
proof -
  show refused: "sensor_start_read tabs (start env) sensor_index s
           = Inr (- EBUSY, s\<lparr>readstate := DTH22M_READSTATE_TOOSOON\<rparr>)"
    using assms by (simp add: sensor_start_read_def arr_read_def ktime_to_ms_less_2100)
  have same: "s\<lparr>readstate := DTH22M_READSTATE_NEXT\<rparr> = s"
    using assms(1) by simp
  show "chardevice_open tabs env sensor_index s = Inr (0, Some ''ReaderBusy\<newline>'', s)"
    if "kmalloc_ok env"
    using that same
    by (simp add: chardevice_open_def refused EBUSY_def snprintf_message_def
        DHT22M_CHARDEV_BUFFSIZE_def)
qed

section \<open>The edge recorder\<close>

text \<open>
  C1. The claim: during Collecting \<^verbatim>\<open>edge_count\<close> never exceeds the capacity
  of 43 timestamps, and once it has reached 43 every further edge is dropped without
  a store and without an increment.

  The code does not do that. The guard of line 145 compares \<^verbatim>\<open>num_edges\<close>
  with \<^verbatim>\<open>sizeof sensor_state.timestamps\<close>, which is 344 bytes and not 43
  elements (lemma \<open>edge_beyond_capacity\<close> for every such session). Evaluated on a
  session that holds 43 recorded timestamps, the handler passes the guard and reaches the
  store \<^verbatim>\<open>timestamps[43] = now\<close> with its increment, outside the array.
\<close>

theorem edge_at_capacity_overruns:
  "num_edges (ex_collected [0x02, 0x8C, 0x80, 0x65, 0x73]) = 43 \<and>
   length (timestamps (ex_collected [0x02, 0x8C, 0x80, 0x65, 0x73])) = 43 \<and>
   num_edges (ex_collected [0x02, 0x8C, 0x80, 0x65, 0x73]) < sizeof_timestamps \<and>
   s_handle_edge 4 5600000 (ex_collected [0x02, 0x8C, 0x80, 0x65, 0x73])
     = Inl (OutOfBounds 43)"
  by code_simp

text \<open>
  C5. For an edge of the active pin that arrives during Collecting while only the start
  marker is recorded (\<^verbatim>\<open>num_edges == 1\<close>): less than 500 us after
  \<^verbatim>\<open>timestamps[0]\<close> the edge is discarded and the session is unchanged; from
  500 us on the timestamp is stored at index 1 and the count becomes 2. The elapsed time
  is the signed 64-bit difference of the two nanosecond timestamps, so 500 us is 500000.
\<close>

theorem first_edge_filter:
  assumes "readstate s = DTH22M_READSTATE_COLLECT" and "gpio s = gpio_num"
    and "num_edges s = 1" and "length (timestamps s) = 43"
  shows "(sint (now - timestamps s ! 0) < 500000 \<longrightarrow> s_handle_edge gpio_num now s = Inr s) \<and>
         (500000 \<le> sint (now - timestamps s ! 0) \<longrightarrow>
            s_handle_edge gpio_num now s
              = Inr (s\<lparr>timestamps := (timestamps s)[1 := now], num_edges := 2\<rparr>))"
  using assms
  by (simp add: s_handle_edge_def store_edge_def arr_read_def arr_write_def ktime_to_us_def
      sdiv_1000_less_500 sizeof_timestamps_def timestamps_len_def)

text \<open>An edge 400 us after the start marker is discarded, one 600 us after it is recorded.\<close>

theorem first_edge_filter_witness:
  "s_handle_edge 4 400000 ex_armed = Inr ex_armed \<and>
   s_handle_edge 4 600000 ex_armed
     = Inr (ex_armed\<lparr>timestamps := (timestamps ex_armed)[1 := 600000], num_edges := 2\<rparr>)"
  using first_edge_filter [of ex_armed 4 400000] first_edge_filter [of ex_armed 4 600000]
  by (simp add: ex_armed_def)

section \<open>The session controller\<close>

text \<open>
  C2. The claim: a read of the channel that owned the previous read, less than 2100 ms
  after \<^verbatim>\<open>read_timestamp\<close>, from phase Idle on a Ready channel, returns the
  TooSoon outcome with the outward text \<^verbatim>\<open>ReadTooSoon\<close>, not Busy, and leaves
  the phase at Complete-TooSoon without arming the session.

  The code sets \<^verbatim>\<open>DTH22M_READSTATE_TOOSOON\<close> and does not arm the session,
  but it returns \<^verbatim>\<open>-EBUSY\<close>, the value of a busy reader (line 196). So
  \<^verbatim>\<open>chardevice_open\<close> takes its error path: it resets the phase to
  \<^verbatim>\<open>DTH22M_READSTATE_NEXT\<close> and answers \<^verbatim>\<open>ReaderBusy\<close>; its branch
  for \<^verbatim>\<open>ReadTooSoon\<close> (line 573) is never reached from this read. The
  theorem evaluates both functions one second after a completed read (lemma
  \<open>too_soon_path\<close> for every such session).
\<close>

theorem too_soon_reported_as_busy:
  "sensor_start_read ex_tabs (ex_start_env 1005520000) 0 ex_idle
     = Inr (- EBUSY, ex_idle\<lparr>readstate := DTH22M_READSTATE_TOOSOON\<rparr>) \<and>
   chardevice_open ex_tabs (ex_open_env 1005520000 []) 0 ex_idle
     = Inr (0, Some ''ReaderBusy\<newline>'', ex_idle)"
  by code_simp

text \<open>
  C3. The claim: a read from phase Idle of a channel that is not Ready fails with
  ChannelUnavailable and leaves the session unchanged, the phase still Idle.

  As stated it fails: \<^verbatim>\<open>sensor_start_read\<close> sets the phase to
  \<^verbatim>\<open>DTH22M_READSTATE_OTHERR\<close> before it returns (line 184). Channel 1 of the
  example tables is not configured.
\<close>

theorem unavailable_changes_phase:
  "readstate ex_idle = DTH22M_READSTATE_NEXT \<and>
   sensor_start_read ex_tabs (ex_start_env 3005520000) 1 ex_idle
     = Inr (- EIO, ex_idle\<lparr>readstate := DTH22M_READSTATE_OTHERR\<rparr>)"
  by code_simp

text \<open>
  C3, amended. A read from phase Idle of a channel that is not Ready fails with
  \<^verbatim>\<open>-EIO\<close>, the value of every I/O error; it arms nothing and changes no
  field of the session but the phase, which it sets to Complete-OtherError. The phase is
  Idle again, and the whole session as it was, when the enclosing
  \<^verbatim>\<open>chardevice_open\<close> returns with the text \<^verbatim>\<open>IOError\<close>.
\<close>

theorem unavailable_channel_rejected:
  assumes "readstate s = DTH22M_READSTATE_NEXT"
    and "0 \<le> sensor_index" and "sensor_index < int (length (sensor_states tabs))"
    and "sensor_states tabs ! nat sensor_index \<noteq> DHT22M_STATES_CONFIGURED"
  shows "sensor_start_read tabs (start env) sensor_index s
           = Inr (- EIO, s\<lparr>readstate := DTH22M_READSTATE_OTHERR\<rparr>) \<and>
         (kmalloc_ok env \<longrightarrow>
            chardevice_open tabs env sensor_index s = Inr (0, Some ''IOError\<newline>'', s))"
proof -
  have rejected: "sensor_start_read tabs (start env) sensor_index s
           = Inr (- EIO, s\<lparr>readstate := DTH22M_READSTATE_OTHERR\<rparr>)"
    using assms by (simp add: sensor_start_read_def arr_read_def)
  have same: "s\<lparr>readstate := DTH22M_READSTATE_NEXT\<rparr> = s"
    using assms(1) by simp
  have "chardevice_open tabs env sensor_index s = Inr (0, Some ''IOError\<newline>'', s)"
    if "kmalloc_ok env"
    using that same
    by (simp add: chardevice_open_def rejected EIO_def EBUSY_def snprintf_message_def
        DHT22M_CHARDEV_BUFFSIZE_def)
  with rejected show ?thesis by simp
qed

theorem unavailable_channel_rejected_witness:
  "sensor_start_read ex_tabs (ex_start_env 3005520000) 1 ex_idle
     = Inr (- EIO, ex_idle\<lparr>readstate := DTH22M_READSTATE_OTHERR\<rparr>) \<and>
   chardevice_open ex_tabs (ex_open_env 3005520000 []) 1 ex_idle
     = Inr (0, Some ''IOError\<newline>'', ex_idle)"
  using unavailable_channel_rejected [of ex_idle 1 ex_tabs "ex_open_env 3005520000 []"]
  by (simp add: ex_idle_def ex_tabs_def ex_open_env_def DHT22M_MAX_DEVICES_def)

text \<open>
  C4. A read requested while the phase is not Idle (Collecting, or a Complete result not
  yet consumed) returns \<^verbatim>\<open>-EBUSY\<close> and leaves the whole session as it was,
  \<^verbatim>\<open>num_edges\<close>, \<^verbatim>\<open>timestamps\<close> and \<^verbatim>\<open>gpio\<close> included.
  The test comes before any access to the channel tables, so it holds for every index.
\<close>

theorem busy_leaves_session:
  "readstate s \<noteq> DTH22M_READSTATE_NEXT \<Longrightarrow>
   sensor_start_read tabs env sensor_index s = Inr (- EBUSY, s)"
  by (simp add: sensor_start_read_def)

theorem busy_leaves_session_witness:
  "sensor_start_read ex_tabs (ex_start_env 5600000) 0 ex_armed = Inr (- EBUSY, ex_armed)"
  using busy_leaves_session [of ex_armed ex_tabs "ex_start_env 5600000" 0]
  by (simp add: ex_armed_def)

section \<open>The pulse decoder\<close>

text \<open>
  C6. The claim: with exactly 43 recorded timestamps, bit \<open>i\<close> of the 40 data bits is
  1 when the pulse between \<^verbatim>\<open>timestamps[i+2]\<close> and \<^verbatim>\<open>timestamps[i+3]\<close>
  is strictly longer than 101 us and 0 otherwise, the bits packed most significant
  first into five bytes.

  As stated it fails between 101 us and 102 us: the code compares the width in whole
  microseconds, which \<^verbatim>\<open>ktime_to_us\<close> cuts off (line 263), with 101
  (line 277). A first data pulse of 101500 ns is longer than 101 us and is decoded as 0.
\<close>

theorem decode_truncates_width:
  "num_edges ex_band = 43 \<and> length (timestamps ex_band) = 43 \<and>
   sint (timestamps ex_band ! 3 - timestamps ex_band ! 2) = 101500 \<and>
   sensor_decode_pulses ex_band
     = Inr (0, ex_band\<lparr>bytes := [0, 0, 0, 0, 0], readstate := DTH22M_READSTATE_OK\<rparr>)"
  by code_simp

text \<open>
  C6, amended. With exactly 43 recorded timestamps \<^verbatim>\<open>sensor_decode_pulses\<close>
  returns, and bit \<open>i\<close> of the 40 data bits is 1 exactly when the pulse between
  \<^verbatim>\<open>timestamps[i+2]\<close> and \<^verbatim>\<open>timestamps[i+3]\<close>, in whole microseconds,
  is more than 101: when the signed 64-bit difference of the two nanosecond timestamps
  is at least 102000. Bit \<open>i\<close> is stored in byte \<open>i div 8\<close> at position
  \<open>7 - i mod 8\<close>: in the order of transmission, most significant bit first. The five
  bytes have no other bits, so this fixes them.
\<close>

theorem decode_bits:
  assumes "length (timestamps s) = 43" and "num_edges s = 43"
  shows "\<exists>r s'. sensor_decode_pulses s = Inr (r, s') \<and> length (bytes s') = 5 \<and>
           (\<forall>i<40. bit (bytes s' ! (i div 8)) (7 - i mod 8) \<longleftrightarrow>
              102000 \<le> sint (timestamps s ! (i + 3) - timestamps s ! (i + 2)))"
proof -
  from decode_loop_bits [of "timestamps s" "replicate 5 0" 0] assms(1)
  obtain bs where
    run: "decode_loop 0 (timestamps s) (replicate 5 0) = Inr bs" and
    len: "length bs = 5" and
    bits: "\<forall>j<40. bit (bs ! (j div 8)) (7 - j mod 8) \<longleftrightarrow>
             bit (replicate 5 (0 :: u8) ! (j div 8)) (7 - j mod 8)
             \<or> (0 \<le> j \<and> 101 < ktime_to_us (timestamps s ! (j + 3) - timestamps s ! (j + 2)))"
    by auto
  have zero: "\<not> bit (replicate 5 (0 :: u8) ! (j div 8)) (7 - j mod 8)" if "j < 40" for j
    using that by simp
  from bits zero have bits':
    "\<forall>j<40. bit (bs ! (j div 8)) (7 - j mod 8) \<longleftrightarrow>
       102000 \<le> sint (timestamps s ! (j + 3) - timestamps s ! (j + 2))"
    by (simp add: ktime_to_us_greater_101)
  show ?thesis
    using assms(2) run len bits'
    by (cases "checksum bs = bs ! 4") (simp_all add: sensor_decode_pulses_def)
qed

text \<open>
  In the example capture the first byte is 0x02: bit 6 of the stream has a pulse of
  120 us and sets position 1 of byte 0, bit 7 has one of 80 us and leaves position 0 clear.
\<close>

theorem decode_bits_witness:
  "\<exists>r s'. sensor_decode_pulses (ex_collected [0x02, 0x8C, 0x80, 0x65, 0x73]) = Inr (r, s') \<and>
      length (bytes s') = 5 \<and> bit (bytes s' ! 0) 1 \<and> \<not> bit (bytes s' ! 0) 0"
proof -
  let ?s = "ex_collected [0x02, 0x8C, 0x80, 0x65, 0x73]"
  have len: "length (timestamps ?s) = 43"
    by code_simp
  have num: "num_edges ?s = 43"
    by code_simp
  have wide: "102000 \<le> sint (timestamps ?s ! (6 + 3) - timestamps ?s ! (6 + 2))"
    by code_simp
  have narrow: "\<not> 102000 \<le> sint (timestamps ?s ! (7 + 3) - timestamps ?s ! (7 + 2))"
    by code_simp
  from decode_bits [OF len num] obtain r s' where
    run: "sensor_decode_pulses ?s = Inr (r, s')" and
    len': "length (bytes s') = 5" and
    bits: "\<forall>i<40. bit (bytes s' ! (i div 8)) (7 - i mod 8) \<longleftrightarrow>
             102000 \<le> sint (timestamps ?s ! (i + 3) - timestamps ?s ! (i + 2))"
    by blast
  from bits [rule_format, of 6] wide have "bit (bytes s' ! 0) 1" by simp
  moreover from bits [rule_format, of 7] narrow have "\<not> bit (bytes s' ! 0) 0" by simp
  ultimately show ?thesis using run len' by blast
qed

text \<open>
  C7. The claim: whenever the decoder runs with at least 43 recorded edges and byte 4 is
  the sum of bytes 0 to 3 modulo 256, the phase becomes Complete-Ok,
  \<^verbatim>\<open>read_timestamp\<close> is the timestamp of the final recorded edge, the humidity
  is \<open>bs[0] * 256 + bs[1]\<close>, the sign is bit 7 of byte 2 and the temperature is
  \<open>(bs[2] & 0x7F) * 256 + bs[3]\<close>.

  With exactly 43 recorded edges the code does all of that (lemma
  \<open>checksum_match_measurement\<close> below). With more it does not: the handler lets the
  count pass 43 (C1, the guard of line 145), and line 307 then reads
  \<^verbatim>\<open>timestamps[num_edges - 1]\<close> outside the array. The theorem evaluates
  \<^verbatim>\<open>sensor_parse_bytes\<close> on the example capture with a count of 44: the test
  of line 255 passes, the bytes decode with a matching checksum, and the read of
  \<^verbatim>\<open>timestamps[43]\<close> is out of bounds.
\<close>

theorem final_edge_read_overruns:
  "length (timestamps ((ex_collected [0x02, 0x8C, 0x80, 0x65, 0x73])\<lparr>num_edges := 44\<rparr>)) = 43 \<and>
   sensor_decode_pulses ((ex_collected [0x02, 0x8C, 0x80, 0x65, 0x73])\<lparr>num_edges := 44\<rparr>)
     = Inr (0, (ex_collected [0x02, 0x8C, 0x80, 0x65, 0x73])
                 \<lparr>num_edges := 44, bytes := [0x02, 0x8C, 0x80, 0x65, 0x73],
                  readstate := DTH22M_READSTATE_OK\<rparr>) \<and>
   sensor_parse_bytes ((ex_collected [0x02, 0x8C, 0x80, 0x65, 0x73])\<lparr>num_edges := 44\<rparr>)
     = Inl (OutOfBounds 43)"
  by code_simp

text \<open>
  What holds of the measurement: when at least 43 edges are recorded, all of them inside
  the buffer, and byte 4 of the decoded bytes \<open>bs\<close> is the sum of bytes 0 to 3 modulo
  256, \<^verbatim>\<open>sensor_parse_bytes\<close> ends in phase Complete-Ok with
  \<^verbatim>\<open>read_timestamp\<close> the timestamp of the last recorded edge, the humidity
  \<open>bs[0] * 256 + bs[1]\<close>, the sign bit 7 of byte 2 and the temperature
  \<open>(bs[2] & 0x7F) * 256 + bs[3]\<close>; nothing else of the session changes but the bytes.
\<close>

lemma checksum_match_measurement:
  assumes "length (timestamps s) = 43"
    and "43 \<le> num_edges s" and "num_edges s \<le> int (length (timestamps s))"
    and "decode_loop 0 (timestamps s) (replicate 5 0) = Inr bs"
    and "uint (bs ! 4) = (uint (bs ! 0) + uint (bs ! 1) + uint (bs ! 2) + uint (bs ! 3)) mod 256"
  shows "sensor_parse_bytes s =
           Inr (s\<lparr>bytes := bs,
                  readstate := DTH22M_READSTATE_OK,
                  read_timestamp := timestamps s ! nat (num_edges s - 1),
                  humidity := uint (bs ! 0) * 256 + uint (bs ! 1),
                  negative := bit (bs ! 2) 7,
                  temperature := uint (bs ! 2 AND 0x7F) * 256 + uint (bs ! 3)\<rparr>)"
proof -
  have sum_ok: "checksum bs = bs ! 4"
    using assms(5) by (simp add: checksum_iff)
  have decoded: "sensor_decode_pulses s
                   = Inr (0, s\<lparr>bytes := bs, readstate := DTH22M_READSTATE_OK\<rparr>)"
    using assms(2,4) sum_ok by (simp add: sensor_decode_pulses_def)
  have final: "arr_read (timestamps s) (num_edges s - 1)
                 = Inr (timestamps s ! nat (num_edges s - 1))"
    using assms(2,3) by (simp add: arr_read_def)
  show ?thesis
    by (simp add: sensor_parse_bytes_def decoded final bit_0x80)
qed

text \<open>
  The example capture carries 65.2 percent and -10.1 degrees; the sum of its first four
  bytes is 371, and 371 modulo 256 is the checksum 0x73.
\<close>

lemma checksum_match_measurement_example:
  "sensor_parse_bytes (ex_collected [0x02, 0x8C, 0x80, 0x65, 0x73]) =
     Inr ((ex_collected [0x02, 0x8C, 0x80, 0x65, 0x73])
            \<lparr>bytes := [0x02, 0x8C, 0x80, 0x65, 0x73],
             readstate := DTH22M_READSTATE_OK,
             read_timestamp := 5520000,
             humidity := 652,
             negative := True,
             temperature := 101\<rparr>)"
proof -
  let ?s = "ex_collected [0x02, 0x8C, 0x80, 0x65, 0x73]"
  let ?bs = "[0x02, 0x8C, 0x80, 0x65, 0x73] :: u8 list"
  have len: "length (timestamps ?s) = 43" by code_simp
  have lo: "43 \<le> num_edges ?s" by code_simp
  have hi: "num_edges ?s \<le> int (length (timestamps ?s))" by code_simp
  have dec: "decode_loop 0 (timestamps ?s) (replicate 5 0) = Inr ?bs" by code_simp
  have chk: "uint (?bs ! 4) = (uint (?bs ! 0) + uint (?bs ! 1) + uint (?bs ! 2) + uint (?bs ! 3)) mod 256"
    by simp
  have last_edge: "timestamps ?s ! nat (num_edges ?s - 1) = 5520000" by code_simp
  show ?thesis
    using checksum_match_measurement [OF len lo hi dec chk] last_edge
    by (simp add: bit_iff_odd)
qed

text \<open>
  C8. With fewer than 43 recorded edges \<^verbatim>\<open>sensor_decode_pulses\<close> sets the
  phase to Complete-OtherError and returns \<^verbatim>\<open>-EIO\<close>; nothing else of the
  session changes, and \<^verbatim>\<open>sensor_parse_bytes\<close> stops there. It reads no
  timestamp: every read of the buffer in the model faults outside the buffer, and the
  result is the same on a session whose buffer is empty, where any read would fault.
\<close>

theorem too_few_edges:
  assumes "num_edges s < 43"
  shows "sensor_decode_pulses s = Inr (- EIO, s\<lparr>readstate := DTH22M_READSTATE_OTHERR\<rparr>) \<and>
         sensor_decode_pulses (s\<lparr>timestamps := []\<rparr>)
           = Inr (- EIO, s\<lparr>timestamps := [], readstate := DTH22M_READSTATE_OTHERR\<rparr>) \<and>
         sensor_parse_bytes s = Inr (s\<lparr>readstate := DTH22M_READSTATE_OTHERR\<rparr>)"
  using assms by (simp add: sensor_decode_pulses_def sensor_parse_bytes_def)

text \<open>One edge short: 42 recorded edges.\<close>

theorem too_few_edges_witness:
  "sensor_decode_pulses (ex_armed\<lparr>num_edges := 42\<rparr>)
     = Inr (- EIO, ex_armed\<lparr>num_edges := 42, readstate := DTH22M_READSTATE_OTHERR\<rparr>) \<and>
   sensor_decode_pulses (ex_armed\<lparr>num_edges := 42, timestamps := []\<rparr>)
     = Inr (- EIO, ex_armed\<lparr>num_edges := 42, timestamps := [],
                           readstate := DTH22M_READSTATE_OTHERR\<rparr>) \<and>
   sensor_parse_bytes (ex_armed\<lparr>num_edges := 42\<rparr>)
     = Inr (ex_armed\<lparr>num_edges := 42, readstate := DTH22M_READSTATE_OTHERR\<rparr>)"
  using too_few_edges [of "ex_armed\<lparr>num_edges := 42\<rparr>"] by simp

text \<open>
  C9. When at least 43 edges are recorded and byte 4 of the decoded bytes \<open>bs\<close> is
  not the sum of bytes 0 to 3 modulo 256, \<^verbatim>\<open>sensor_parse_bytes\<close> ends in phase
  Complete-ChecksumError. Only the bytes and the phase change: \<^verbatim>\<open>negative\<close>,
  \<^verbatim>\<open>temperature\<close>, \<^verbatim>\<open>humidity\<close> and \<^verbatim>\<open>read_timestamp\<close> keep
  their values.
\<close>

theorem checksum_mismatch_no_measurement:
  assumes "length (timestamps s) = 43" and "43 \<le> num_edges s"
    and "decode_loop 0 (timestamps s) (replicate 5 0) = Inr bs"
    and "uint (bs ! 4) \<noteq> (uint (bs ! 0) + uint (bs ! 1) + uint (bs ! 2) + uint (bs ! 3)) mod 256"
  shows "sensor_parse_bytes s
           = Inr (s\<lparr>bytes := bs, readstate := DTH22M_READSTATE_CHKSUMERR\<rparr>)"
proof -
  have sum_bad: "checksum bs \<noteq> bs ! 4"
    using assms(4) by (simp add: checksum_iff)
  have decoded: "sensor_decode_pulses s
                   = Inr (0, s\<lparr>bytes := bs, readstate := DTH22M_READSTATE_CHKSUMERR\<rparr>)"
    using assms(2,3) sum_bad by (simp add: sensor_decode_pulses_def)
  show ?thesis
    by (simp add: sensor_parse_bytes_def decoded)
qed

text \<open>
  The bytes 0x01, 0x2C, 0x00, 0xC8 add up to 0xF5; a capture that ends in 0xF4 fails the
  test.
\<close>

theorem checksum_mismatch_no_measurement_witness:
  "sensor_parse_bytes (ex_collected [0x01, 0x2C, 0x00, 0xC8, 0xF4]) =
     Inr ((ex_collected [0x01, 0x2C, 0x00, 0xC8, 0xF4])
            \<lparr>bytes := [0x01, 0x2C, 0x00, 0xC8, 0xF4],
             readstate := DTH22M_READSTATE_CHKSUMERR\<rparr>)"
proof -
  let ?s = "ex_collected [0x01, 0x2C, 0x00, 0xC8, 0xF4]"
  let ?bs = "[0x01, 0x2C, 0x00, 0xC8, 0xF4] :: u8 list"
  have len: "length (timestamps ?s) = 43" by code_simp
  have lo: "43 \<le> num_edges ?s" by code_simp
  have dec: "decode_loop 0 (timestamps ?s) (replicate 5 0) = Inr ?bs" by code_simp
  have chk: "uint (?bs ! 4) \<noteq> (uint (?bs ! 0) + uint (?bs ! 1) + uint (?bs ! 2) + uint (?bs ! 3)) mod 256"
    by simp
  show ?thesis
    using checksum_mismatch_no_measurement [OF len lo dec chk] by simp
qed

section \<open>The combined read\<close>

text \<open>
  C10. Whenever \<^verbatim>\<open>chardevice_open\<close> returns 0, the phase it leaves is Idle
  (\<^verbatim>\<open>DTH22M_READSTATE_NEXT\<close>). That covers a read that
  \<^verbatim>\<open>sensor_start_read\<close> refused: with a buffer for the message, the open then
  returns 0 with \<^verbatim>\<open>ReaderBusy\<close> for \<^verbatim>\<open>-EBUSY\<close> and
  \<^verbatim>\<open>IOError\<close> otherwise, and the session is the one
  \<^verbatim>\<open>sensor_start_read\<close> left with the phase reset.
\<close>

theorem open_leaves_idle:
  "(chardevice_open tabs env minor s = Inr (0, message, s') \<longrightarrow>
      readstate s' = DTH22M_READSTATE_NEXT) \<and>
   (sensor_start_read tabs (start env) minor s = Inr (error, s1) \<and> error \<noteq> 0 \<and> kmalloc_ok env \<longrightarrow>
      chardevice_open tabs env minor s
        = Inr (0, Some (if error = - EBUSY then ''ReaderBusy\<newline>'' else ''IOError\<newline>''),
               s1\<lparr>readstate := DTH22M_READSTATE_NEXT\<rparr>))"
proof -
  have "readstate s' = DTH22M_READSTATE_NEXT"
    if "chardevice_open tabs env minor s = Inr (0, message, s')"
    using that
    by (auto simp: chardevice_open_def Let_def split: sum.splits prod.splits if_splits)
  moreover have "chardevice_open tabs env minor s
        = Inr (0, Some (if error = - EBUSY then ''ReaderBusy\<newline>'' else ''IOError\<newline>''),
               s1\<lparr>readstate := DTH22M_READSTATE_NEXT\<rparr>)"
    if "sensor_start_read tabs (start env) minor s = Inr (error, s1)" "error \<noteq> 0" "kmalloc_ok env"
    using that
    by (simp add: chardevice_open_def Let_def snprintf_message_def DHT22M_CHARDEV_BUFFSIZE_def)
  ultimately show ?thesis by blast
qed

text \<open>
  Two opens of channel 0: one while a read is collecting, refused as busy, and one more
  than 2100 ms after the previous read, during which the sensor sends its 42 edges.
\<close>

theorem open_leaves_idle_witness:
  "chardevice_open ex_tabs (ex_open_env 5600000 []) 0 ex_armed
     = Inr (0, Some ''ReaderBusy\<newline>'', ex_armed\<lparr>readstate := DTH22M_READSTATE_NEXT\<rparr>) \<and>
   chardevice_open ex_tabs (ex_open_env 3005520000 (ex_edges 3005520000)) 0 ex_idle
     = Inr (0, Some ''Ok;-10.1;65.2\<newline>'',
            ex_idle\<lparr>timestamps := map ((+) 3005520000) (timestamps ex_idle),
                    read_timestamp := 3011040000\<rparr>) \<and>
   readstate (ex_idle\<lparr>timestamps := map ((+) 3005520000) (timestamps ex_idle),
                     read_timestamp := 3011040000\<rparr>) = DTH22M_READSTATE_NEXT"
proof -
  let ?busy = "ex_open_env 5600000 []"
  let ?env = "ex_open_env 3005520000 (ex_edges 3005520000)"
  let ?s' = "ex_idle\<lparr>timestamps := map ((+) 3005520000) (timestamps ex_idle),
                    read_timestamp := 3011040000\<rparr>"
  have refused: "sensor_start_read ex_tabs (start ?busy) 0 ex_armed = Inr (- EBUSY, ex_armed)"
    by code_simp
  have nonzero: "- EBUSY \<noteq> 0"
    by (simp add: EBUSY_def)
  have alloc: "kmalloc_ok ?busy"
    by code_simp
  from open_leaves_idle [of ex_tabs ?busy 0 ex_armed _ _ "- EBUSY" ex_armed]
    refused nonzero alloc
  have busy: "chardevice_open ex_tabs ?busy 0 ex_armed
     = Inr (0, Some ''ReaderBusy\<newline>'', ex_armed\<lparr>readstate := DTH22M_READSTATE_NEXT\<rparr>)"
    by simp
  have run: "chardevice_open ex_tabs ?env 0 ex_idle = Inr (0, Some ''Ok;-10.1;65.2\<newline>'', ?s')"
    by code_simp
  from open_leaves_idle [of ex_tabs ?env 0 ex_idle "Some ''Ok;-10.1;65.2\<newline>''" ?s'] run
  have "readstate ?s' = DTH22M_READSTATE_NEXT"
    by blast
  with busy run show ?thesis by blast
qed

end
